theory Spec2Isabelle
  imports Complex_Main
begin

section \<open>Values: floats, arrays and exceptions\<close>

text \<open>
  The two lens profiles of \<^verbatim>\<open>lenstronomy/LensModel/Profiles\<close> are embedded as HOL
  functions. Conventions of the embedding:

  \<^item> a Python or numpy float is a \<^typ>\<open>real\<close>: arithmetic is exact, and neither rounding
    nor the sign of zero, NaN or infinity is represented. Two effects of double precision
    are written out where a property depends on them: the underflow of \<^verbatim>\<open>a**2\<close> and
    \<^verbatim>\<open>b**2\<close> to \<^verbatim>\<open>0.0\<close> in the membership test of the slice, and the rounding of every
    operation in the scalar potential of the truncated profile, which has a second,
    double-precision transcription;
  \<^item> the profile parameters (\<^verbatim>\<open>theta_E\<close>, \<^verbatim>\<open>r_trunc\<close>, \<^verbatim>\<open>a\<close>, \<^verbatim>\<open>b\<close>, \<^verbatim>\<open>psi\<close>,
    \<^verbatim>\<open>sigma_0\<close>, the centre) are Python floats, as the docstrings type them, so a
    division of one parameter expression by another that is zero raises
    \<^verbatim>\<open>ZeroDivisionError\<close>; a division in which a numpy value takes part does not raise;
  \<^item> the coordinates \<^verbatim>\<open>x\<close> and \<^verbatim>\<open>y\<close> are two floats, or two one-dimensional arrays of the
    same size \<^verbatim>\<open>n\<close> (the docstring of \<^verbatim>\<open>SIS_truncate.function\<close>); the array form holds
    the pairs \<^verbatim>\<open>(x[i], y[i])\<close>.
\<close>

datatype py_error = ZeroDivisionError | ValueError | IndexError

datatype pyval = Float real | NDArray "real list"

datatype coords = Scalar real real | Array "(real \<times> real) list"

fun coord_x :: "coords \<Rightarrow> pyval" where
  "coord_x (Scalar x y) = Float x"
| "coord_x (Array ps) = NDArray (map fst ps)"

fun coord_y :: "coords \<Rightarrow> pyval" where
  "coord_y (Scalar x y) = Float y"
| "coord_y (Array ps) = NDArray (map snd ps)"

text \<open>Elementwise numpy arithmetic; a float operand is broadcast over an array.\<close>

fun np_map :: "(real \<Rightarrow> real) \<Rightarrow> pyval \<Rightarrow> pyval" where
  "np_map f (Float a) = Float (f a)"
| "np_map f (NDArray xs) = NDArray (map f xs)"

fun np_op2 :: "(real \<Rightarrow> real \<Rightarrow> real) \<Rightarrow> pyval \<Rightarrow> pyval \<Rightarrow> pyval" where
  "np_op2 f (Float a) (Float b) = Float (f a b)"
| "np_op2 f (Float a) (NDArray ys) = NDArray (map (f a) ys)"
| "np_op2 f (NDArray xs) (Float b) = NDArray (map (\<lambda>a. f a b) xs)"
| "np_op2 f (NDArray xs) (NDArray ys) = NDArray (map2 f xs ys)"

definition np_add :: "pyval \<Rightarrow> pyval \<Rightarrow> pyval" where
  "np_add = np_op2 (\<lambda>a b. a + b)"

definition np_sub :: "pyval \<Rightarrow> pyval \<Rightarrow> pyval" where
  "np_sub = np_op2 (\<lambda>a b. a - b)"

definition np_mul :: "pyval \<Rightarrow> pyval \<Rightarrow> pyval" where
  "np_mul = np_op2 (\<lambda>a b. a * b)"

definition np_div :: "pyval \<Rightarrow> pyval \<Rightarrow> pyval" where
  "np_div = np_op2 (\<lambda>a b. a / b)"

definition np_pow :: "pyval \<Rightarrow> nat \<Rightarrow> pyval" where
  "np_pow v n = np_map (\<lambda>a. a ^ n) v"

definition np_neg :: "pyval \<Rightarrow> pyval" where
  "np_neg = np_map (\<lambda>a. - a)"

definition np_sqrt :: "pyval \<Rightarrow> pyval" where
  "np_sqrt = np_map sqrt"

text \<open>
  Boolean-mask indexing of a one-dimensional array: \<^verbatim>\<open>r[mask]\<close> selects the entries
  where the mask holds, \<^verbatim>\<open>f[mask] = values\<close> writes the values, in order, to those
  entries, and \<^verbatim>\<open>f[mask] = c\<close> writes the float \<^verbatim>\<open>c\<close> to each of them. The profiles
  only ever assign as many values as the mask selects.
\<close>

fun mask_get :: "bool list \<Rightarrow> 'a list \<Rightarrow> 'a list" where
  "mask_get (m # ms) (x # xs) = (if m then x # mask_get ms xs else mask_get ms xs)"
| "mask_get _ _ = []"

fun mask_set :: "'a list \<Rightarrow> bool list \<Rightarrow> 'a list \<Rightarrow> 'a list" where
  "mask_set (f # fs) (m # ms) vs =
     (if m then (case vs of v # vs' \<Rightarrow> v # mask_set fs ms vs' | [] \<Rightarrow> f # mask_set fs ms [])
      else f # mask_set fs ms vs)"
| "mask_set fs _ _ = fs"

fun mask_fill :: "'a list \<Rightarrow> bool list \<Rightarrow> 'a \<Rightarrow> 'a list" where
  "mask_fill (f # fs) (m # ms) c = (if m then c else f) # mask_fill fs ms c"
| "mask_fill fs _ _ = fs"

definition zeros_like :: "real list \<Rightarrow> real list" where
  "zeros_like r = map (\<lambda>_. 0) r"

text \<open>Division of one Python float by another.\<close>

definition py_div :: "real \<Rightarrow> real \<Rightarrow> py_error + real" where
  "py_div a b = (if b = 0 then Inl ZeroDivisionError else Inr (a / b))"

section \<open>The truncated singular isothermal sphere (sis\_truncate.py)\<close>

definition SIS_truncate_function ::
  "coords \<Rightarrow> real \<Rightarrow> real \<Rightarrow> real \<Rightarrow> real \<Rightarrow> pyval" where
  "SIS_truncate_function c theta_E r_trunc center_x center_y =
     (let x_shift = np_sub (coord_x c) (Float center_x);
          y_shift = np_sub (coord_y c) (Float center_y);
          r = np_sqrt (np_add (np_mul x_shift x_shift) (np_mul y_shift y_shift))
      in case r of
           Float r \<Rightarrow>
             Float (if r < r_trunc then theta_E * r
                    else if r < 2 * r_trunc then
                      theta_E * r_trunc + 1 / 2 * theta_E * (3 - r / r_trunc) * (r - r_trunc)
                    else 3 / 2 * theta_E * r_trunc)
         | NDArray r \<Rightarrow>
             (let f0 = zeros_like r;
                  f1 = mask_set f0 (map (\<lambda>r. r < r_trunc) r)
                         (map (\<lambda>r. theta_E * r) (mask_get (map (\<lambda>r. r < r_trunc) r) r));
                  r_sel = mask_get (map (\<lambda>r. r < 2 * r_trunc \<and> r > r_trunc) r) r;
                  f2 = mask_set f1 (map (\<lambda>r. r < 2 * r_trunc \<and> r > r_trunc) r)
                         (map (\<lambda>r_sel. theta_E * r_trunc
                                 + 1 / 2 * theta_E * (3 - r_sel / r_trunc) * (r_sel - r_trunc)) r_sel);
                  f3 = mask_fill f2 (map (\<lambda>r. r > 2 * r_trunc) r) (3 / 2 * theta_E * r_trunc)
              in NDArray f3))"

definition SIS_truncate_dphi_dr :: "pyval \<Rightarrow> pyval \<Rightarrow> real \<Rightarrow> real \<Rightarrow> pyval" where
  "SIS_truncate_dphi_dr x y theta_E r_trunc =
     (let r = np_sqrt (np_add (np_mul x x) (np_mul y y))
      in case r of
           Float r \<Rightarrow>
             Float (if r = 0 then 0
                    else if r < r_trunc then theta_E
                    else if r < 2 * r_trunc then theta_E * (2 - r / r_trunc)
                    else 0)
         | NDArray r \<Rightarrow>
             (let a0 = zeros_like r;
                  a1 = mask_fill a0 (map (\<lambda>r. r < r_trunc \<and> r > 0) r) theta_E;
                  r_sel = mask_get (map (\<lambda>r. r < 2 * r_trunc \<and> r \<ge> r_trunc) r) r;
                  a2 = mask_set a1 (map (\<lambda>r. r < 2 * r_trunc \<and> r \<ge> r_trunc) r)
                         (map (\<lambda>r_sel. theta_E * (2 - r_sel / r_trunc)) r_sel);
                  a3 = mask_fill a2 (map (\<lambda>r. r \<ge> 2 * r_trunc) r) 0
              in NDArray a3))"

text \<open>
  \<^verbatim>\<open>-theta_E / r_trunc\<close> divides two parameters: the scalar path evaluates it only in
  the middle regime, the array path evaluates it for every input.
\<close>

definition SIS_truncate_d2phi_dr2 ::
  "pyval \<Rightarrow> pyval \<Rightarrow> real \<Rightarrow> real \<Rightarrow> py_error + pyval" where
  "SIS_truncate_d2phi_dr2 x y theta_E r_trunc =
     (let r = np_sqrt (np_add (np_mul x x) (np_mul y y))
      in case r of
           Float r \<Rightarrow>
             (if r < r_trunc then Inr (Float 0)
              else if r < 2 * r_trunc then
                (case py_div (- theta_E) r_trunc of
                   Inl e \<Rightarrow> Inl e
                 | Inr a \<Rightarrow> Inr (Float a))
              else Inr (Float 0))
         | NDArray r \<Rightarrow>
             (let a0 = zeros_like r;
                  a1 = mask_fill a0 (map (\<lambda>r. r < r_trunc) r) 0
              in case py_div (- theta_E) r_trunc of
                   Inl e \<Rightarrow> Inl e
                 | Inr v \<Rightarrow>
                     (let a2 = mask_fill a1 (map (\<lambda>r. r < 2 * r_trunc \<and> r > r_trunc) r) v;
                          a3 = mask_fill a2 (map (\<lambda>r. r > 2 * r_trunc) r) 0
                      in Inr (NDArray a3))))"

definition SIS_truncate_dr_dx :: "pyval \<Rightarrow> pyval \<Rightarrow> pyval \<times> pyval" where
  "SIS_truncate_dr_dx x y =
     (let r = np_sqrt (np_add (np_pow x 2) (np_pow y 2));
          r' = (case r of
                  Float r \<Rightarrow> Float (if r = 0 then 1 else r)
                | NDArray r \<Rightarrow> NDArray (mask_fill r (map (\<lambda>r. r = 0) r) 1))
      in (np_div x r', np_div y r'))"

definition SIS_truncate_d2r_dx2 :: "pyval \<Rightarrow> pyval \<Rightarrow> pyval \<times> pyval \<times> pyval" where
  "SIS_truncate_d2r_dx2 x y =
     (let r = np_sqrt (np_add (np_pow x 2) (np_pow y 2));
          r' = (case r of
                  Float r \<Rightarrow> Float (if r = 0 then 1 else r)
                | NDArray r \<Rightarrow> NDArray (mask_fill r (map (\<lambda>r. r = 0) r) 1))
      in (np_div (np_pow y 2) (np_pow r' 3),
          np_div (np_pow x 2) (np_pow r' 3),
          np_div (np_mul (np_neg x) y) (np_pow r' 3)))"

definition SIS_truncate_derivatives ::
  "coords \<Rightarrow> real \<Rightarrow> real \<Rightarrow> real \<Rightarrow> real \<Rightarrow> pyval \<times> pyval" where
  "SIS_truncate_derivatives c theta_E r_trunc center_x center_y =
     (let x_shift = np_sub (coord_x c) (Float center_x);
          y_shift = np_sub (coord_y c) (Float center_y);
          dphi_dr = SIS_truncate_dphi_dr x_shift y_shift theta_E r_trunc;
          (dr_dx, dr_dy) = SIS_truncate_dr_dx x_shift y_shift;
          f_x = np_mul dphi_dr dr_dx;
          f_y = np_mul dphi_dr dr_dy
      in (f_x, f_y))"

text \<open>The hessian passes the unshifted \<^verbatim>\<open>x, y\<close> to \<^verbatim>\<open>_dr_dx\<close>, as the source does.\<close>

definition SIS_truncate_hessian ::
  "coords \<Rightarrow> real \<Rightarrow> real \<Rightarrow> real \<Rightarrow> real \<Rightarrow> py_error + pyval \<times> pyval \<times> pyval \<times> pyval" where
  "SIS_truncate_hessian c theta_E r_trunc center_x center_y =
     (let x = coord_x c;
          y = coord_y c;
          x_shift = np_sub x (Float center_x);
          y_shift = np_sub y (Float center_y);
          dphi_dr = SIS_truncate_dphi_dr x_shift y_shift theta_E r_trunc
      in case SIS_truncate_d2phi_dr2 x_shift y_shift theta_E r_trunc of
           Inl e \<Rightarrow> Inl e
         | Inr d2phi_dr2 \<Rightarrow>
             (let (dr_dx, dr_dy) = SIS_truncate_dr_dx x y;
                  (d2r_dx2, d2r_dy2, d2r_dxy) = SIS_truncate_d2r_dx2 x_shift y_shift;
                  f_xx = np_add (np_mul d2r_dx2 dphi_dr) (np_mul (np_pow dr_dx 2) d2phi_dr2);
                  f_yy = np_add (np_mul d2r_dy2 dphi_dr) (np_mul (np_pow dr_dy 2) d2phi_dr2);
                  f_xy = np_add (np_mul d2r_dxy dphi_dr) (np_mul (np_mul dr_dx dr_dy) d2phi_dr2)
              in Inr (f_xx, f_xy, f_xy, f_yy)))"

section \<open>The scalar potential of the truncated profile in double precision\<close>





section \<open>The elliptical slice of constant density (elliptical\_density\_slice.py)\<close>

text \<open>
  \<^verbatim>\<open>kwargs_slice\<close> is a dictionary with the six keys below, built by every public
  operation before it is read; it is a record here, with the key \<^verbatim>\<open>k\<close> as field
  \<^verbatim>\<open>kw_k\<close>.
\<close>

record kwargs_slice =
  kw_center_x :: real
  kw_center_y :: real
  kw_a :: real
  kw_b :: real
  kw_psi :: real
  kw_sigma_0 :: real

text \<open>
  Modelled from the spec: \<^verbatim>\<open>param_util.cart2polar\<close> is imported by the profile and is
  not among the sources. The spec names it the Cartesian to polar conversion of the
  geometry utilities, returning the radius and the polar angle of a point; the angle is
  the two-argument arctangent of \<^verbatim>\<open>(y, x)\<close>, in \<open>(-\<pi>, \<pi>]\<close>.
\<close>

definition arctan2 :: "real \<Rightarrow> real \<Rightarrow> real" where
  "arctan2 y x =
     (if x > 0 then arctan (y / x)
      else if x < 0 \<and> y \<ge> 0 then arctan (y / x) + pi
      else if x < 0 \<and> y < 0 then arctan (y / x) - pi
      else if y > 0 then pi / 2
      else if y < 0 then - pi / 2
      else 0)"

definition cart2polar :: "real \<Rightarrow> real \<Rightarrow> real \<times> real" where
  "cart2polar x y = (sqrt (x ^ 2 + y ^ 2), arctan2 y x)"

text \<open>
  \<^verbatim>\<open>cmath.exp\<close>, \<^verbatim>\<open>cmath.sqrt\<close> (the principal square root) and \<^verbatim>\<open>cmath.log\<close> (the
  principal logarithm, which raises \<^verbatim>\<open>ValueError\<close> at zero); \<^verbatim>\<open>np.median\<close> of a list of
  three floats.
\<close>

definition cmath_exp :: "complex \<Rightarrow> complex" where
  "cmath_exp z = exp z"

definition cmath_sqrt :: "complex \<Rightarrow> complex" where
  "cmath_sqrt z = csqrt z"

definition cmath_log :: "complex \<Rightarrow> py_error + complex" where
  "cmath_log z = (if z = 0 then Inl ValueError else Inr (Complex (ln (cmod z)) (Arg z)))"

definition np_median3 :: "real \<Rightarrow> real \<Rightarrow> real \<Rightarrow> real" where
  "np_median3 u v w = sort [u, v, w] ! 1"

text \<open>A list comprehension whose element expression may raise: the first exception wins.\<close>

fun py_list_comp :: "('a \<Rightarrow> py_error + 'b) \<Rightarrow> 'a list \<Rightarrow> py_error + 'b list" where
  "py_list_comp f [] = Inr []"
| "py_list_comp f (x # xs) =
     (case f x of
        Inl e \<Rightarrow> Inl e
      | Inr v \<Rightarrow> (case py_list_comp f xs of Inl e \<Rightarrow> Inl e | Inr vs \<Rightarrow> Inr (v # vs)))"

definition sign :: "complex \<Rightarrow> int" where
  "sign z = (let x = Re z; y = Im z in if x > 0 \<or> (x = 0 \<and> y \<ge> 0) then 1 else - 1)"

text \<open>
  An operation on doubles whose exact result is \<^verbatim>\<open>v\<close> returns \<^verbatim>\<open>0.0\<close> when
  \<^verbatim>\<open>abs(v) <= 2**-1075\<close>, half the smallest subnormal double (round to nearest, ties
  to even): for a double \<^verbatim>\<open>a\<close> below about \<^verbatim>\<open>1.5e-162\<close> the square \<^verbatim>\<open>a**2\<close> is
  \<^verbatim>\<open>0.0\<close>.
\<close>

definition rounds_to_zero :: "real \<Rightarrow> bool" where
  "rounds_to_zero v \<longleftrightarrow> \<bar>v\<bar> \<le> 1 / 2 ^ 1075"

text \<open>
  The membership test \<^verbatim>\<open>(x_rot**2 / a**2) + (y_rot**2 / b**2) <= 1\<close>. The rotated
  coordinates are numpy floats, so a zero \<^verbatim>\<open>a**2\<close> or \<^verbatim>\<open>b**2\<close> does not raise: the
  quotient is then infinite or NaN, and so is the sum, which makes the comparison false.
  The square of an axis is zero when the axis is zero or so small that its square
  underflows.
\<close>

definition in_slice :: "real \<Rightarrow> real \<Rightarrow> real \<Rightarrow> real \<Rightarrow> bool" where
  "in_slice x_rot y_rot a b \<longleftrightarrow>
     \<not> rounds_to_zero (a ^ 2) \<and> \<not> rounds_to_zero (b ^ 2)
     \<and> (x_rot ^ 2 / a ^ 2) + (y_rot ^ 2 / b ^ 2) \<le> 1"

definition alpha_in :: "real \<Rightarrow> real \<Rightarrow> kwargs_slice \<Rightarrow> py_error + real \<times> real" where
  "alpha_in x y kwargs =
     (let z = Complex x y;
          zb = cnj z;
          psi = kw_psi kwargs
      in case py_div (kw_a kwargs - kw_b kwargs) (kw_a kwargs + kw_b kwargs) of
           Inl err \<Rightarrow> Inl err
         | Inr e \<Rightarrow>
             (let sig_0 = kw_sigma_0 kwargs;
                  e2ipsi = cmath_exp (2 * \<i> * of_real psi);
                  I_in = (z - of_real e * zb * e2ipsi) * of_real sig_0
              in Inr (Re I_in, Im I_in)))"

text \<open>
  The test for a point close to one of the axes of the ellipse, shared by \<^verbatim>\<open>alpha_ext\<close>
  and \<^verbatim>\<open>pot_ext\<close> (\<^verbatim>\<open>median_op\<close> in the source).
\<close>

definition median_op :: "real \<Rightarrow> real \<Rightarrow> bool" where
  "median_op phi psi \<longleftrightarrow>
     \<bar>sin (phi - psi)\<bar> \<le> 1 / 10 ^ 10 \<or> \<bar>sin (phi - psi - pi / 2)\<bar> \<le> 1 / 10 ^ 10"

definition alpha_ext :: "real \<Rightarrow> real \<Rightarrow> kwargs_slice \<Rightarrow> py_error + real \<times> real" where
  "alpha_ext x y kwargs =
     (let z = Complex x y;
          (r, phi) = cart2polar x y;
          zb = cnj z;
          psi = kw_psi kwargs;
          a = kw_a kwargs;
          b = kw_b kwargs;
          f2 = a ^ 2 - b ^ 2;
          sig_0 = kw_sigma_0 kwargs;
          e2ipsi = cmath_exp (2 * \<i> * of_real psi);
          eipsi = cmath_exp (\<i> * of_real psi)
      in if median_op phi psi then
           (let eps = 1 / 10 ^ 10;
                z_minus_eps = Complex (r * cos (phi - eps)) (r * sin (phi - eps));
                zb_minus_eps = cnj z_minus_eps;
                z_plus_eps = Complex (r * cos (phi + eps)) (r * sin (phi + eps));
                zb_plus_eps = cnj z_plus_eps
            in case py_div (2 * a * b) f2 of
                 Inl err \<Rightarrow> Inl err
               | Inr q_minus \<Rightarrow>
            (let I_out_minus =
                   of_real q_minus
                   * (zb_minus_eps * e2ipsi
                      - eipsi * of_int (sign (zb_minus_eps * eipsi))
                        * cmath_sqrt (zb_minus_eps ^ 2 * e2ipsi - of_real f2))
                   * of_real sig_0
             in case py_div (2 * a * b) f2 of
                  Inl err \<Rightarrow> Inl err
                | Inr q_plus \<Rightarrow>
            (let I_out_plus =
                   of_real q_plus
                   * (zb_plus_eps * e2ipsi
                      - eipsi * of_int (sign (zb_plus_eps * eipsi))
                        * cmath_sqrt (zb_plus_eps ^ 2 * e2ipsi - of_real f2))
                   * of_real sig_0
             in case py_div (2 * a * b) f2 of
                  Inl err \<Rightarrow> Inl err
                | Inr q_mid \<Rightarrow>
            (let I_out_mid =
                   of_real q_mid
                   * (zb * e2ipsi
                      - eipsi * of_int (sign (zb * eipsi))
                        * cmath_sqrt (zb ^ 2 * e2ipsi - of_real f2))
                   * of_real sig_0;
                 I_out_real = np_median3 (Re I_out_minus) (Re I_out_plus) (Re I_out_mid);
                 I_out_imag = np_median3 (Im I_out_minus) (Im I_out_plus) (Im I_out_mid)
             in Inr (I_out_real, I_out_imag)))))
         else if a = b \<and> x ^ 2 + y ^ 2 > a ^ 2 then
           (let I_out_real = sig_0 * a ^ 2 * x / (x ^ 2 + y ^ 2);
                I_out_imag = sig_0 * a ^ 2 * y / (x ^ 2 + y ^ 2)
            in Inr (I_out_real, I_out_imag))
         else
           (case py_div (2 * a * b) f2 of
              Inl err \<Rightarrow> Inl err
            | Inr q \<Rightarrow>
                (let I_out =
                       of_real q
                       * (zb * e2ipsi
                          - eipsi * of_int (sign (zb * eipsi))
                            * cmath_sqrt (zb ^ 2 * e2ipsi - of_real f2))
                       * of_real sig_0
                 in Inr (Re I_out, Im I_out))))"

text \<open>
  \<^verbatim>\<open>np.log(rE)\<close> does not raise; for \<^verbatim>\<open>rE <= 0\<close> numpy returns \<^verbatim>\<open>-inf\<close> or NaN, which
  \<^term>\<open>ln\<close> does not represent.
\<close>

definition pot_in :: "real \<Rightarrow> real \<Rightarrow> kwargs_slice \<Rightarrow> py_error + real" where
  "pot_in x y kwargs =
     (let psi = kw_psi kwargs;
          a = kw_a kwargs;
          b = kw_b kwargs;
          sig_0 = kw_sigma_0 kwargs
      in case py_div (a - b) (a + b) of
           Inl err \<Rightarrow> Inl err
         | Inr e \<Rightarrow>
             (let rE = (a + b) / 2;
                  pot_in = 1 / 2
                           * ((1 - e) * (x * cos psi + y * sin psi) ^ 2
                              + (1 + e) * (y * cos psi - x * sin psi) ^ 2)
                           * sig_0;
                  cst = sig_0 * rE ^ 2 * (1 - e ^ 2) * ln rE
              in Inr (pot_in + cst)))"

definition pot_ext :: "real \<Rightarrow> real \<Rightarrow> kwargs_slice \<Rightarrow> py_error + real" where
  "pot_ext x y kwargs =
     (let z = Complex x y;
          psi = kw_psi kwargs;
          a = kw_a kwargs;
          b = kw_b kwargs;
          sig_0 = kw_sigma_0 kwargs;
          (r, phi) = cart2polar x y
      in case py_div (a - b) (a + b) of
           Inl err \<Rightarrow> Inl err
         | Inr e \<Rightarrow>
      (let f2 = a ^ 2 - b ^ 2;
           emipsi = cmath_exp (- \<i> * of_real psi);
           em2ipsi = cmath_exp (- 2 * \<i> * of_real psi)
       in if median_op phi psi then
            (let eps = 1 / 10 ^ 10;
                 z_minus_eps = Complex (r * cos (phi - eps)) (r * sin (phi - eps));
                 z_plus_eps = Complex (r * cos (phi + eps)) (r * sin (phi + eps))
             in case py_div (1 - e ^ 2) (4 * e) of
                  Inl err \<Rightarrow> Inl err
                | Inr q_minus \<Rightarrow>
            (case cmath_log
                    ((of_int (sign (z_minus_eps * emipsi)) * z_minus_eps * emipsi
                               + cmath_sqrt (z_minus_eps ^ 2 * em2ipsi - of_real f2)) / 2) of
               Inl err \<Rightarrow> Inl err
             | Inr log_minus \<Rightarrow>
            (let pot_ext_minus =
                   of_real q_minus
                   * (of_real f2 * log_minus
                      - of_int (sign (z_minus_eps * emipsi)) * z_minus_eps * emipsi
                        * cmath_sqrt (z_minus_eps ^ 2 * em2ipsi - of_real f2)
                      + z_minus_eps ^ 2 * em2ipsi)
                   * of_real sig_0
             in case py_div (1 - e ^ 2) (4 * e) of
                  Inl err \<Rightarrow> Inl err
                | Inr q_plus \<Rightarrow>
            (case cmath_log
                    ((of_int (sign (z_plus_eps * emipsi)) * z_plus_eps * emipsi
                               + cmath_sqrt (z_plus_eps ^ 2 * em2ipsi - of_real f2)) / 2) of
               Inl err \<Rightarrow> Inl err
             | Inr log_plus \<Rightarrow>
            (let pot_ext_plus =
                   of_real q_plus
                   * (of_real f2 * log_plus
                      - of_int (sign (z_plus_eps * emipsi)) * z_plus_eps * emipsi
                        * cmath_sqrt (z_plus_eps ^ 2 * em2ipsi - of_real f2)
                      + z_plus_eps ^ 2 * em2ipsi)
                   * of_real sig_0
             in case py_div (1 - e ^ 2) (4 * e) of
                  Inl err \<Rightarrow> Inl err
                | Inr q_mid \<Rightarrow>
            (case cmath_log
                    ((of_int (sign (z * emipsi)) * z * emipsi
                               + cmath_sqrt (z ^ 2 * em2ipsi - of_real f2)) / 2) of
               Inl err \<Rightarrow> Inl err
             | Inr log_mid \<Rightarrow>
            (let pot_ext_mid =
                   of_real q_mid
                   * (of_real f2 * log_mid
                      - of_int (sign (z * emipsi)) * z * emipsi
                        * cmath_sqrt (z ^ 2 * em2ipsi - of_real f2)
                      + z ^ 2 * em2ipsi)
                   * of_real sig_0
             in Inr (np_median3 (Re pot_ext_minus) (Re pot_ext_plus) (Re pot_ext_mid)))))))))
          else
            (case py_div (1 - e ^ 2) (4 * e) of
               Inl err \<Rightarrow> Inl err
             | Inr q \<Rightarrow>
            (case cmath_log
                    ((of_int (sign (z * emipsi)) * z * emipsi
                               + cmath_sqrt (z ^ 2 * em2ipsi - of_real f2)) / 2) of
               Inl err \<Rightarrow> Inl err
             | Inr log_z \<Rightarrow>
                 Inr (Re (of_real q
                   * (of_real f2 * log_z
                      - of_int (sign (z * emipsi)) * z * emipsi
                        * cmath_sqrt (z ^ 2 * em2ipsi - of_real f2)
                      + z ^ 2 * em2ipsi)
                   * of_real sig_0))))))"

text \<open>
  The public operations. The scalar branch is the \<^verbatim>\<open>except\<close> branch of \<^verbatim>\<open>len(x_)\<close>;
  the array branch evaluates the list comprehension over \<^verbatim>\<open>range(len(x_))\<close>. In
  \<^verbatim>\<open>derivatives\<close> the list of pairs becomes a two-dimensional array, whose columns are
  returned; from an empty list the array is one-dimensional and \<^verbatim>\<open>defl[:, 0]\<close> raises
  \<^verbatim>\<open>IndexError\<close>. The centred coordinates \<^verbatim>\<open>x_\<close>, \<^verbatim>\<open>y_\<close> are written \<open>x_c\<close>, \<open>y_c\<close>.
\<close>

fun ElliSLICE_function ::
  "coords \<Rightarrow> real \<Rightarrow> real \<Rightarrow> real \<Rightarrow> real \<Rightarrow> real \<Rightarrow> real \<Rightarrow> py_error + pyval" where
  "ElliSLICE_function (Scalar x y) a b psi sigma_0 center_x center_y =
     (let kwargs = \<lparr>kw_center_x = center_x, kw_center_y = center_y, kw_a = a, kw_b = b,
                     kw_psi = psi, kw_sigma_0 = sigma_0\<rparr>;
          x_c = x - center_x;
          y_c = y - center_y;
          x_rot = x_c * cos psi + y_c * sin psi;
          y_rot = - x_c * sin psi + y_c * cos psi
      in case (if in_slice x_rot y_rot a b then pot_in x_c y_c kwargs
               else pot_ext x_c y_c kwargs) of
           Inl err \<Rightarrow> Inl err
         | Inr f \<Rightarrow> Inr (Float f))"
| "ElliSLICE_function (Array ps) a b psi sigma_0 center_x center_y =
     (let kwargs = \<lparr>kw_center_x = center_x, kw_center_y = center_y, kw_a = a, kw_b = b,
                     kw_psi = psi, kw_sigma_0 = sigma_0\<rparr>;
          x_c = map (\<lambda>x. x - center_x) (map fst ps);
          y_c = map (\<lambda>y. y - center_y) (map snd ps);
          x_rot = map2 (\<lambda>x_c y_c. x_c * cos psi + y_c * sin psi) x_c y_c;
          y_rot = map2 (\<lambda>x_c y_c. - x_c * sin psi + y_c * cos psi) x_c y_c
      in case py_list_comp
                (\<lambda>i. if in_slice (x_rot ! i) (y_rot ! i) a b then pot_in (x_c ! i) (y_c ! i) kwargs
                      else pot_ext (x_c ! i) (y_c ! i) kwargs)
                [0..<length x_c] of
           Inl err \<Rightarrow> Inl err
         | Inr f \<Rightarrow> Inr (NDArray f))"

fun ElliSLICE_derivatives ::
  "coords \<Rightarrow> real \<Rightarrow> real \<Rightarrow> real \<Rightarrow> real \<Rightarrow> real \<Rightarrow> real \<Rightarrow> py_error + pyval \<times> pyval" where
  "ElliSLICE_derivatives (Scalar x y) a b psi sigma_0 center_x center_y =
     (let kwargs = \<lparr>kw_center_x = center_x, kw_center_y = center_y, kw_a = a, kw_b = b,
                     kw_psi = psi, kw_sigma_0 = sigma_0\<rparr>;
          x_c = x - center_x;
          y_c = y - center_y;
          x_rot = x_c * cos psi + y_c * sin psi;
          y_rot = - x_c * sin psi + y_c * cos psi
      in case (if in_slice x_rot y_rot a b then alpha_in x_c y_c kwargs
               else alpha_ext x_c y_c kwargs) of
           Inl err \<Rightarrow> Inl err
         | Inr (f_x, f_y) \<Rightarrow> Inr (Float f_x, Float f_y))"
| "ElliSLICE_derivatives (Array ps) a b psi sigma_0 center_x center_y =
     (let kwargs = \<lparr>kw_center_x = center_x, kw_center_y = center_y, kw_a = a, kw_b = b,
                     kw_psi = psi, kw_sigma_0 = sigma_0\<rparr>;
          x_c = map (\<lambda>x. x - center_x) (map fst ps);
          y_c = map (\<lambda>y. y - center_y) (map snd ps);
          x_rot = map2 (\<lambda>x_c y_c. x_c * cos psi + y_c * sin psi) x_c y_c;
          y_rot = map2 (\<lambda>x_c y_c. - x_c * sin psi + y_c * cos psi) x_c y_c
      in case py_list_comp
                (\<lambda>i. if in_slice (x_rot ! i) (y_rot ! i) a b then alpha_in (x_c ! i) (y_c ! i) kwargs
                      else alpha_ext (x_c ! i) (y_c ! i) kwargs)
                [0..<length x_c] of
           Inl err \<Rightarrow> Inl err
         | Inr defl \<Rightarrow>
             (if defl = [] then Inl IndexError
              else Inr (NDArray (map fst defl), NDArray (map snd defl))))"

text \<open>\<^verbatim>\<open>x + diff\<close> and \<^verbatim>\<open>y + diff\<close> on a float or, elementwise, on an array.\<close>

fun add_x :: "coords \<Rightarrow> real \<Rightarrow> coords" where
  "add_x (Scalar x y) d = Scalar (x + d) y"
| "add_x (Array ps) d = Array (map (\<lambda>(x, y). (x + d, y)) ps)"

fun add_y :: "coords \<Rightarrow> real \<Rightarrow> coords" where
  "add_y (Scalar x y) d = Scalar x (y + d)"
| "add_y (Array ps) d = Array (map (\<lambda>(x, y). (x, y + d)) ps)"

definition ElliSLICE_hessian ::
  "coords \<Rightarrow> real \<Rightarrow> real \<Rightarrow> real \<Rightarrow> real \<Rightarrow> real \<Rightarrow> real
     \<Rightarrow> py_error + pyval \<times> pyval \<times> pyval \<times> pyval" where
  "ElliSLICE_hessian c a b psi sigma_0 center_x center_y =
     (let diff = 1 / 10 ^ 9
      in case ElliSLICE_derivatives c a b psi sigma_0 center_x center_y of
           Inl err \<Rightarrow> Inl err
         | Inr (alpha_ra, alpha_dec) \<Rightarrow>
      (case ElliSLICE_derivatives (add_x c diff) a b psi sigma_0 center_x center_y of
           Inl err \<Rightarrow> Inl err
         | Inr (alpha_ra_dx, alpha_dec_dx) \<Rightarrow>
      (case ElliSLICE_derivatives (add_y c diff) a b psi sigma_0 center_x center_y of
           Inl err \<Rightarrow> Inl err
         | Inr (alpha_ra_dy, alpha_dec_dy) \<Rightarrow>
             (let f_xx = np_div (np_sub alpha_ra_dx alpha_ra) (Float diff);
                  f_xy = np_div (np_sub alpha_ra_dy alpha_ra) (Float diff);
                  f_yx = np_div (np_sub alpha_dec_dx alpha_dec) (Float diff);
                  f_yy = np_div (np_sub alpha_dec_dy alpha_dec) (Float diff)
              in Inr (f_xx, f_xy, f_yx, f_yy)))))"

section \<open>Auxiliary notions for stating the properties\<close>

text \<open>
  The deflection and the potential of the slice at one point, as the scalar branch of
  \<^verbatim>\<open>derivatives\<close> and \<^verbatim>\<open>function\<close> and each round of their list comprehensions
  compute them.
\<close>

definition deflection_at ::
  "real \<Rightarrow> real \<Rightarrow> real \<Rightarrow> real \<Rightarrow> real \<Rightarrow> real \<Rightarrow> real \<Rightarrow> real \<Rightarrow> py_error + real \<times> real" where
  "deflection_at x y a b psi sigma_0 center_x center_y =
     (let kwargs = \<lparr>kw_center_x = center_x, kw_center_y = center_y, kw_a = a, kw_b = b,
                     kw_psi = psi, kw_sigma_0 = sigma_0\<rparr>;
          x_c = x - center_x;
          y_c = y - center_y
      in if in_slice (x_c * cos psi + y_c * sin psi) (- x_c * sin psi + y_c * cos psi) a b
         then alpha_in x_c y_c kwargs
         else alpha_ext x_c y_c kwargs)"

definition potential_at ::
  "real \<Rightarrow> real \<Rightarrow> real \<Rightarrow> real \<Rightarrow> real \<Rightarrow> real \<Rightarrow> real \<Rightarrow> real \<Rightarrow> py_error + real" where
  "potential_at x y a b psi sigma_0 center_x center_y =
     (let kwargs = \<lparr>kw_center_x = center_x, kw_center_y = center_y, kw_a = a, kw_b = b,
                     kw_psi = psi, kw_sigma_0 = sigma_0\<rparr>;
          x_c = x - center_x;
          y_c = y - center_y
      in if in_slice (x_c * cos psi + y_c * sin psi) (- x_c * sin psi + y_c * cos psi) a b
         then pot_in x_c y_c kwargs
         else pot_ext x_c y_c kwargs)"




section \<open>Boolean masks and elementwise evaluation\<close>

lemmas np_defs =
  np_sub_def np_add_def np_mul_def np_div_def np_pow_def np_neg_def np_sqrt_def zeros_like_def

lemma mask_set_map:
  "mask_set (map h rs) (map p rs) (map g (mask_get (map p rs) rs)) =
     map (\<lambda>r. if p r then g r else h r) rs"
  by (induction rs) auto

lemma mask_fill_map:
  "mask_fill (map h rs) (map p rs) c = map (\<lambda>r. if p r then c else h r) rs"
  by (induction rs) auto

lemma py_list_comp_map: "py_list_comp f (map h xs) = py_list_comp (\<lambda>x. f (h x)) xs"
  by (induction xs) (auto split: sum.splits)

lemma py_list_comp_cong:
  "(\<And>x. x \<in> set xs \<Longrightarrow> f x = g x) \<Longrightarrow> py_list_comp f xs = py_list_comp g xs"
  by (induction xs) (auto split: sum.splits)

lemma py_list_comp_length: "py_list_comp f xs = Inr vs \<Longrightarrow> length vs = length xs"
  by (induction xs arbitrary: vs) (auto split: sum.splits)

lemma py_list_comp_nth:
  "py_list_comp f xs = Inr vs \<Longrightarrow> i < length xs \<Longrightarrow> f (xs ! i) = Inr (vs ! i)"
proof (induction xs arbitrary: vs i)
  case Nil
  then show ?case by simp
next
  case (Cons x xs)
  then show ?case by (cases i) (auto split: sum.splits)
qed

section \<open>Rounding to the nearest double\<close>










section \<open>The truncated profile: what the scalar and the array path compute\<close>

lemma SIS_function_Scalar:
  "SIS_truncate_function (Scalar x y) theta_E r_trunc center_x center_y =
     Float (let r = sqrt ((x - center_x) * (x - center_x) + (y - center_y) * (y - center_y))
            in if r < r_trunc then theta_E * r
               else if r < 2 * r_trunc then
                 theta_E * r_trunc + 1 / 2 * theta_E * (3 - r / r_trunc) * (r - r_trunc)
               else 3 / 2 * theta_E * r_trunc)"
  by (simp add: SIS_truncate_function_def np_defs Let_def)

text \<open>
  The array path, element by element: the three masks use strict comparisons only, so
  an element whose radius is exactly \<^verbatim>\<open>r_trunc\<close> or \<^verbatim>\<open>2 * r_trunc\<close> keeps the zero of
  \<^verbatim>\<open>np.zeros_like\<close>.
\<close>

lemma SIS_function_Array:
  "SIS_truncate_function (Array ps) theta_E r_trunc center_x center_y =
     NDArray (map (\<lambda>(x, y).
        let r = sqrt ((x - center_x) * (x - center_x) + (y - center_y) * (y - center_y))
        in if r > 2 * r_trunc then 3 / 2 * theta_E * r_trunc
           else if r < 2 * r_trunc \<and> r > r_trunc then
             theta_E * r_trunc + 1 / 2 * theta_E * (3 - r / r_trunc) * (r - r_trunc)
           else if r < r_trunc then theta_E * r
           else 0) ps)"
proof -
  define rs where
    "rs = map (\<lambda>(x, y). sqrt ((x - center_x) * (x - center_x) + (y - center_y) * (y - center_y))) ps"
  have r: "np_sqrt (np_add
             (np_mul (np_sub (coord_x (Array ps)) (Float center_x))
                     (np_sub (coord_x (Array ps)) (Float center_x)))
             (np_mul (np_sub (coord_y (Array ps)) (Float center_y))
                     (np_sub (coord_y (Array ps)) (Float center_y)))) = NDArray rs"
    by (simp add: np_defs rs_def split_def comp_def zip_map_map zip_same_conv_map)
  show ?thesis
    unfolding SIS_truncate_function_def Let_def r pyval.case zeros_like_def
      mask_set_map mask_fill_map
    by (simp add: rs_def split_def comp_def)
qed

lemma SIS_function_scenario:
  "SIS_truncate_function (Scalar (1 / 2) 0) 1 1 0 0 = Float (1 / 2)"
  "SIS_truncate_function (Scalar (3 / 2) 0) 1 1 0 0 = Float (11 / 8)"
  "SIS_truncate_function (Scalar 3 0) 1 1 0 0 = Float (3 / 2)"
  by (simp_all add: SIS_function_Scalar real_sqrt_divide)

text \<open>
  C1. The potential of the truncated profile at the two boundary radii, for
  \<^verbatim>\<open>theta_E = 1\<close>, \<^verbatim>\<open>r_trunc = 1\<close> and the centre at the origin: the array path returns
  0 at \<^verbatim>\<open>r = r_trunc\<close> and at \<^verbatim>\<open>r = 2 * r_trunc\<close>, where the scalar path returns
  \<^verbatim>\<open>theta_E * r_trunc = 1\<close> and \<^verbatim>\<open>1.5 * theta_E * r_trunc = 1.5\<close>.
\<close>

theorem SIS_function_array_at_boundary:
  "SIS_truncate_function (Array [(1, 0), (2, 0)]) 1 1 0 0 = NDArray [0, 0]
   \<and> SIS_truncate_function (Scalar 1 0) 1 1 0 0 = Float 1
   \<and> SIS_truncate_function (Scalar 2 0) 1 1 0 0 = Float (3 / 2)"
  by (simp add: SIS_function_Array SIS_function_Scalar)

text \<open>
  C2. Array and scalar evaluation of the truncated profile disagree at a boundary
  radius: of the three pairs with radius 1/2, 1 and 3 (\<^verbatim>\<open>theta_E = r_trunc = 1\<close>) the
  array potential is \<^verbatim>\<open>[0.5, 0, 1.5]\<close> while the scalar potential at radius 1 is 1, and
  the array hessian at \<^verbatim>\<open>(1, 0)\<close> has \<^verbatim>\<open>f_xx = 0\<close> while the scalar hessian has
  \<^verbatim>\<open>f_xx = -1\<close>.
\<close>

theorem SIS_array_differs_from_scalar:
  "SIS_truncate_function (Array [(1 / 2, 0), (1, 0), (3, 0)]) 1 1 0 0 = NDArray [1 / 2, 0, 3 / 2]
   \<and> SIS_truncate_function (Scalar 1 0) 1 1 0 0 = Float 1
   \<and> SIS_truncate_hessian (Array [(1, 0)]) 1 1 0 0
       = Inr (NDArray [0], NDArray [0], NDArray [0], NDArray [1])
   \<and> SIS_truncate_hessian (Scalar 1 0) 1 1 0 0
       = Inr (Float (- 1), Float 0, Float 0, Float 1)"
  by (simp add: SIS_function_Array SIS_function_Scalar real_sqrt_divide
      SIS_truncate_hessian_def SIS_truncate_d2phi_dr2_def SIS_truncate_dphi_dr_def
      SIS_truncate_dr_dx_def SIS_truncate_d2r_dx2_def np_defs py_div_def Let_def)

lemma sqrt_25: "sqrt 25 = 5"
  using real_sqrt_abs [of 5] by simp

text \<open>
  C4. The hessian of the truncated profile at \<^verbatim>\<open>(x, y) = (3, 4)\<close> with centre \<^verbatim>\<open>(0, 4)\<close>,
  \<^verbatim>\<open>theta_E = 1\<close>, \<^verbatim>\<open>r_trunc = 2\<close>, and at the centred point \<^verbatim>\<open>(3, 0)\<close> with centre
  \<^verbatim>\<open>(0, 0)\<close>: the two differ, because \<^verbatim>\<open>dr/dx\<close> and \<^verbatim>\<open>dr/dy\<close> are taken at the
  uncentred point \<^verbatim>\<open>(3, 4)\<close>, where they are 3/5 and 4/5 instead of 1 and 0.
\<close>

theorem SIS_hessian_off_centre:
  "SIS_truncate_hessian (Scalar 3 4) 1 2 0 4
     = Inr (Float (- (9 / 50)), Float (- (6 / 25)), Float (- (6 / 25)), Float (1 / 6 - 8 / 25))
   \<and> SIS_truncate_hessian (Scalar 3 0) 1 2 0 0
     = Inr (Float (- (1 / 2)), Float 0, Float 0, Float (1 / 6))"
  by (simp add: SIS_truncate_hessian_def SIS_truncate_d2phi_dr2_def SIS_truncate_dphi_dr_def
      SIS_truncate_dr_dx_def SIS_truncate_d2r_dx2_def np_defs py_div_def Let_def sqrt_25
      power2_eq_square)

lemma SIS_dphi_dr_Float:
  "SIS_truncate_dphi_dr (Float x) (Float y) theta_E r_trunc =
     Float (let r = sqrt (x * x + y * y)
            in if r = 0 then 0
               else if r < r_trunc then theta_E
               else if r < 2 * r_trunc then theta_E * (2 - r / r_trunc)
               else 0)"
  by (simp add: SIS_truncate_dphi_dr_def np_defs Let_def)

text \<open>The first radial derivative is the same on both paths.\<close>

lemma SIS_dphi_dr_NDArray:
  "SIS_truncate_dphi_dr (NDArray (map fst ps)) (NDArray (map snd ps)) theta_E r_trunc =
     NDArray (map (\<lambda>(x, y).
        let r = sqrt (x * x + y * y)
        in if r = 0 then 0
           else if r < r_trunc then theta_E
           else if r < 2 * r_trunc then theta_E * (2 - r / r_trunc)
           else 0) ps)"
proof -
  define rs where "rs = map (\<lambda>(x, y). sqrt (x * x + y * y)) ps"
  have r: "np_sqrt (np_add (np_mul (NDArray (map fst ps)) (NDArray (map fst ps)))
                           (np_mul (NDArray (map snd ps)) (NDArray (map snd ps)))) = NDArray rs"
    by (simp add: np_defs rs_def split_def comp_def zip_map_map zip_same_conv_map)
  have nonneg: "0 \<le> r" if "r \<in> set rs" for r
    using that by (auto simp add: rs_def)
  have "map (\<lambda>r. if 2 * r_trunc \<le> r then 0
                  else if r < 2 * r_trunc \<and> r_trunc \<le> r then theta_E * (2 - r / r_trunc)
                  else if r < r_trunc \<and> 0 < r then theta_E
                  else 0) rs
        = map (\<lambda>r. if r = 0 then 0
                  else if r < r_trunc then theta_E
                  else if r < 2 * r_trunc then theta_E * (2 - r / r_trunc)
                  else 0) rs"
    by (rule map_cong [OF refl]) (use nonneg in force)
  then show ?thesis
    unfolding SIS_truncate_dphi_dr_def Let_def r pyval.case zeros_like_def
      mask_set_map mask_fill_map
    by (simp add: rs_def split_def comp_def)
qed

text \<open>
  C7. The second radial derivative at \<^verbatim>\<open>r = r_trunc\<close> (\<^verbatim>\<open>theta_E = r_trunc = 1\<close>, the
  point \<^verbatim>\<open>(1, 0)\<close>): the array path returns 0, the scalar path
  \<^verbatim>\<open>-theta_E / r_trunc = -1\<close>.
\<close>

theorem SIS_d2phi_dr2_at_r_trunc:
  "SIS_truncate_d2phi_dr2 (NDArray [1]) (NDArray [0]) 1 1 = Inr (NDArray [0])
   \<and> SIS_truncate_d2phi_dr2 (Float 1) (Float 0) 1 1 = Inr (Float (- 1))"
  by (simp add: SIS_truncate_d2phi_dr2_def np_defs py_div_def)







section \<open>The elliptical slice: pointwise evaluation\<close>


lemma py_list_comp_range:
  "py_list_comp (\<lambda>i. f (ps ! i)) [0..<length ps] = py_list_comp f ps"
proof -
  have "py_list_comp f ps = py_list_comp f (map (\<lambda>i. ps ! i) [0..<length ps])"
    by (simp add: map_nth)
  then show ?thesis
    by (simp add: py_list_comp_map)
qed

lemma ElliSLICE_derivatives_Scalar:
  "ElliSLICE_derivatives (Scalar x y) a b psi sigma_0 center_x center_y =
     (case deflection_at x y a b psi sigma_0 center_x center_y of
        Inl err \<Rightarrow> Inl err
      | Inr (f_x, f_y) \<Rightarrow> Inr (Float f_x, Float f_y))"
  by (simp add: deflection_at_def Let_def)

lemma ElliSLICE_derivatives_Array:
  "ElliSLICE_derivatives (Array ps) a b psi sigma_0 center_x center_y =
     (case py_list_comp (\<lambda>(x, y). deflection_at x y a b psi sigma_0 center_x center_y) ps of
        Inl err \<Rightarrow> Inl err
      | Inr defl \<Rightarrow>
          (if defl = [] then Inl IndexError
           else Inr (NDArray (map fst defl), NDArray (map snd defl))))"
  unfolding py_list_comp_range
              [of "\<lambda>(x, y). deflection_at x y a b psi sigma_0 center_x center_y" ps, symmetric]
  apply (simp add: Let_def)
  apply (rule arg_cong [where f = "case_sum Inl _"])
  apply (rule py_list_comp_cong)
  apply (simp add: deflection_at_def Let_def split_def)
  done

lemma ElliSLICE_function_Scalar:
  "ElliSLICE_function (Scalar x y) a b psi sigma_0 center_x center_y =
     (case potential_at x y a b psi sigma_0 center_x center_y of
        Inl err \<Rightarrow> Inl err
      | Inr f \<Rightarrow> Inr (Float f))"
  by (simp add: potential_at_def Let_def)

lemma ElliSLICE_function_Array:
  "ElliSLICE_function (Array ps) a b psi sigma_0 center_x center_y =
     (case py_list_comp (\<lambda>(x, y). potential_at x y a b psi sigma_0 center_x center_y) ps of
        Inl err \<Rightarrow> Inl err
      | Inr f \<Rightarrow> Inr (NDArray f))"
  unfolding py_list_comp_range
              [of "\<lambda>(x, y). potential_at x y a b psi sigma_0 center_x center_y" ps, symmetric]
  apply (simp add: Let_def)
  apply (rule arg_cong [where f = "case_sum Inl _"])
  apply (rule py_list_comp_cong)
  apply (simp add: potential_at_def Let_def split_def)
  done

text \<open>On an empty array \<^verbatim>\<open>derivatives\<close> raises, \<^verbatim>\<open>function\<close> returns an empty array.\<close>

lemma ElliSLICE_derivatives_empty:
  "ElliSLICE_derivatives (Array []) a b psi sigma_0 center_x center_y = Inl IndexError"
  by simp

lemma ElliSLICE_function_empty:
  "ElliSLICE_function (Array []) a b psi sigma_0 center_x center_y = Inr (NDArray [])"
  by simp

text \<open>
  An array of deflections that is returned holds, at each index, the scalar deflection
  at that pair.
\<close>

lemma ElliSLICE_derivatives_Array_nth:
  assumes "ElliSLICE_derivatives (Array ps) a b psi sigma_0 center_x center_y = Inr R"
  shows "\<exists>ras decs. R = (NDArray ras, NDArray decs) \<and> length ras = length ps \<and> length decs = length ps
           \<and> (\<forall>i<length ps. ElliSLICE_derivatives (Scalar (fst (ps ! i)) (snd (ps ! i))) a b psi sigma_0 center_x center_y
                  = Inr (Float (ras ! i), Float (decs ! i)))"
proof -
  let ?f = "\<lambda>(x, y). deflection_at x y a b psi sigma_0 center_x center_y"
  from assms obtain defl where defl: "py_list_comp ?f ps = Inr defl"
    and R: "R = (NDArray (map fst defl), NDArray (map snd defl))"
    unfolding ElliSLICE_derivatives_Array by (auto split: sum.splits if_splits)
  have len: "length defl = length ps"
    using defl by (rule py_list_comp_length)
  have "ElliSLICE_derivatives (Scalar (fst (ps ! i)) (snd (ps ! i))) a b psi sigma_0 center_x center_y
          = Inr (Float (map fst defl ! i), Float (map snd defl ! i))" if "i < length ps" for i
  proof -
    have "?f (ps ! i) = Inr (defl ! i)"
      using defl that by (rule py_list_comp_nth)
    then have "deflection_at (fst (ps ! i)) (snd (ps ! i)) a b psi sigma_0 center_x center_y = Inr (defl ! i)"
      by (simp add: split_def)
    then show ?thesis
      using that len
      by (simp add: ElliSLICE_derivatives_Scalar split_def del: ElliSLICE_derivatives.simps)
  qed
  then show ?thesis
    using R len by auto
qed

section \<open>The elliptical slice: the circular case\<close>

lemma cart2polar_2_0: "cart2polar 2 0 = (2, 0)"
  by (simp add: cart2polar_def arctan2_def)

lemma cart2polar_0_2: "cart2polar 0 2 = (2, pi / 2)"
  by (simp add: cart2polar_def arctan2_def)

text \<open>With \<^verbatim>\<open>a == b\<close> the outside potential raises at every point.\<close>

lemma pot_ext_circular: "kw_a kw = kw_b kw \<Longrightarrow> pot_ext x y kw = Inl ZeroDivisionError"
  by (simp add: pot_ext_def py_div_def Let_def split_def)

text \<open>
  With \<^verbatim>\<open>a == b\<close> the outside deflection raises at a point close to an axis, and
  returns the point-mass formula elsewhere outside the circle.
\<close>

lemma alpha_ext_circular_axis:
  "kw_a kw = kw_b kw \<Longrightarrow> median_op (snd (cart2polar x y)) (kw_psi kw)
     \<Longrightarrow> alpha_ext x y kw = Inl ZeroDivisionError"
  by (simp add: alpha_ext_def py_div_def Let_def split_def)




text \<open>
  C3. With \<^verbatim>\<open>a = b = 1\<close>, \<^verbatim>\<open>psi = 0\<close>, \<^verbatim>\<open>sigma_0 = 1\<close> and the centre at the origin, all
  inside the published bounds, the potential at the outside point \<^verbatim>\<open>(2, 0)\<close> and the
  deflection at the outside point \<^verbatim>\<open>(0, 2)\<close> raise \<^verbatim>\<open>ZeroDivisionError\<close>.
\<close>

theorem ElliSLICE_circular_raises:
  "ElliSLICE_function (Scalar 2 0) 1 1 0 1 0 0 = Inl ZeroDivisionError
   \<and> ElliSLICE_derivatives (Scalar 0 2) 1 1 0 1 0 0 = Inl ZeroDivisionError"
  by (simp add: in_slice_def rounds_to_zero_def pot_ext_circular alpha_ext_circular_axis cart2polar_0_2
      median_op_def)

text \<open>
  C5. With \<^verbatim>\<open>a = b = 1\<close>, \<^verbatim>\<open>psi = 0\<close>, \<^verbatim>\<open>sigma_0 = 1\<close> the deflection at the point
  \<^verbatim>\<open>(2, 0)\<close>, outside the circle and on an axis, raises \<^verbatim>\<open>ZeroDivisionError\<close>; the
  point-mass formula gives \<^verbatim>\<open>(0.5, 0)\<close> there.
\<close>

theorem ElliSLICE_derivatives_circular_on_axis:
  "ElliSLICE_derivatives (Scalar 2 0) 1 1 0 1 0 0 = Inl ZeroDivisionError"
  by (simp add: in_slice_def rounds_to_zero_def alpha_ext_circular_axis cart2polar_2_0 median_op_def)

section \<open>The elliptical slice: the centre\<close>




section \<open>The elliptical slice: the finite-difference hessian\<close>

lemma ElliSLICE_hessian_Scalar:
  assumes "ElliSLICE_derivatives (Scalar x y) a b psi sigma_0 center_x center_y = Inr (Float ax, Float ay)"
    and "ElliSLICE_derivatives (Scalar (x + 1 / 10 ^ 9) y) a b psi sigma_0 center_x center_y = Inr (Float ax_dx, Float ay_dx)"
    and "ElliSLICE_derivatives (Scalar x (y + 1 / 10 ^ 9)) a b psi sigma_0 center_x center_y = Inr (Float ax_dy, Float ay_dy)"
  shows "ElliSLICE_hessian (Scalar x y) a b psi sigma_0 center_x center_y
     = Inr (Float ((ax_dx - ax) / (1 / 10 ^ 9)), Float ((ax_dy - ax) / (1 / 10 ^ 9)),
            Float ((ay_dx - ay) / (1 / 10 ^ 9)), Float ((ay_dy - ay) / (1 / 10 ^ 9)))"
  using assms unfolding ElliSLICE_hessian_def Let_def add_x.simps add_y.simps
  by (simp add: np_defs)

lemma ElliSLICE_hessian_Array:
  assumes "ElliSLICE_hessian (Array ps) a b psi sigma_0 center_x center_y = Inr H"
  shows "\<exists>fxx fxy fyx fyy. H = (NDArray fxx, NDArray fxy, NDArray fyx, NDArray fyy)
      \<and> length fxx = length ps \<and> length fxy = length ps \<and> length fyx = length ps \<and> length fyy = length ps
      \<and> (\<forall>i<length ps. \<exists>ax ay ax_dx ay_dx ax_dy ay_dy.
            ElliSLICE_derivatives (Scalar (fst (ps ! i)) (snd (ps ! i))) a b psi sigma_0 center_x center_y = Inr (Float ax, Float ay)
          \<and> ElliSLICE_derivatives (Scalar (fst (ps ! i) + 1 / 10 ^ 9) (snd (ps ! i))) a b psi sigma_0 center_x center_y = Inr (Float ax_dx, Float ay_dx)
          \<and> ElliSLICE_derivatives (Scalar (fst (ps ! i)) (snd (ps ! i) + 1 / 10 ^ 9)) a b psi sigma_0 center_x center_y = Inr (Float ax_dy, Float ay_dy)
          \<and> fxx ! i = (ax_dx - ax) / (1 / 10 ^ 9) \<and> fxy ! i = (ax_dy - ax) / (1 / 10 ^ 9)
          \<and> fyx ! i = (ay_dx - ay) / (1 / 10 ^ 9) \<and> fyy ! i = (ay_dy - ay) / (1 / 10 ^ 9))"
proof -
  let ?h = "1 / 10 ^ 9 :: real"
  let ?px = "map (\<lambda>(x, y). (x + ?h, y)) ps" and ?py = "map (\<lambda>(x, y). (x, y + ?h)) ps"
  from assms obtain R0 R1 R2 where
    d0: "ElliSLICE_derivatives (Array ps) a b psi sigma_0 center_x center_y = Inr R0" and
    d1: "ElliSLICE_derivatives (Array ?px) a b psi sigma_0 center_x center_y = Inr R1" and
    d2: "ElliSLICE_derivatives (Array ?py) a b psi sigma_0 center_x center_y = Inr R2"
    unfolding ElliSLICE_hessian_def Let_def add_x.simps add_y.simps
    by (auto split: sum.splits)
  from ElliSLICE_derivatives_Array_nth [OF d0] obtain ra dec where
    R0: "R0 = (NDArray ra, NDArray dec)" and l0: "length ra = length ps" "length dec = length ps" and
    n0: "\<And>i. i < length ps \<Longrightarrow> ElliSLICE_derivatives (Scalar (fst (ps ! i)) (snd (ps ! i))) a b psi sigma_0 center_x center_y
                  = Inr (Float (ra ! i), Float (dec ! i))"
    by blast
  from ElliSLICE_derivatives_Array_nth [OF d1] obtain ra_dx dec_dx where
    R1: "R1 = (NDArray ra_dx, NDArray dec_dx)" and l1: "length ra_dx = length ps" "length dec_dx = length ps" and
    n1: "\<And>i. i < length ps \<Longrightarrow> ElliSLICE_derivatives (Scalar (fst (?px ! i)) (snd (?px ! i))) a b psi sigma_0 center_x center_y
                  = Inr (Float (ra_dx ! i), Float (dec_dx ! i))"
    by auto
  from ElliSLICE_derivatives_Array_nth [OF d2] obtain ra_dy dec_dy where
    R2: "R2 = (NDArray ra_dy, NDArray dec_dy)" and l2: "length ra_dy = length ps" "length dec_dy = length ps" and
    n2: "\<And>i. i < length ps \<Longrightarrow> ElliSLICE_derivatives (Scalar (fst (?py ! i)) (snd (?py ! i))) a b psi sigma_0 center_x center_y
                  = Inr (Float (ra_dy ! i), Float (dec_dy ! i))"
    by auto
  have H: "H = (NDArray (map (\<lambda>a. a / ?h) (map2 (\<lambda>a b. a - b) ra_dx ra)),
                NDArray (map (\<lambda>a. a / ?h) (map2 (\<lambda>a b. a - b) ra_dy ra)),
                NDArray (map (\<lambda>a. a / ?h) (map2 (\<lambda>a b. a - b) dec_dx dec)),
                NDArray (map (\<lambda>a. a / ?h) (map2 (\<lambda>a b. a - b) dec_dy dec)))"
    using assms d0 d1 d2 unfolding ElliSLICE_hessian_def Let_def add_x.simps add_y.simps R0 R1 R2
    by (simp add: np_defs)
  have px: "fst (?px ! i) = fst (ps ! i) + ?h" "snd (?px ! i) = snd (ps ! i)"
    and py: "fst (?py ! i) = fst (ps ! i)" "snd (?py ! i) = snd (ps ! i) + ?h" if "i < length ps" for i
    using that by (simp_all add: split_def)
  show ?thesis
    unfolding H
    apply (intro exI conjI)
         apply (rule refl)
        apply (simp_all add: l0 l1 l2)
    apply (intro allI impI)
    subgoal for i
      using n0 [of i] n1 [of i] n2 [of i] px [of i] py [of i] l0 l1 l2
      by simp
    done
qed


lemma ElliSLICE_hessian_returns:
  assumes "ElliSLICE_derivatives c a b psi sigma_0 center_x center_y = Inr R0"
    and "ElliSLICE_derivatives (add_x c (1 / 10 ^ 9)) a b psi sigma_0 center_x center_y = Inr R1"
    and "ElliSLICE_derivatives (add_y c (1 / 10 ^ 9)) a b psi sigma_0 center_x center_y = Inr R2"
  shows "\<exists>H. ElliSLICE_hessian c a b psi sigma_0 center_x center_y = Inr H"
  using assms unfolding ElliSLICE_hessian_def Let_def
  by (cases R0; cases R1; cases R2) simp

text \<open>
  C6 (as stated, refuted). The hessian does not return at every coordinate and
  parameter set: for the unit circle (\<^verbatim>\<open>a = b = 1\<close>, \<^verbatim>\<open>psi = 0\<close>, \<^verbatim>\<open>sigma_0 = 1\<close>) at
  the point \<^verbatim>\<open>(2, 0)\<close> its first call of the deflection raises \<^verbatim>\<open>ZeroDivisionError\<close>,
  and so does the hessian.
\<close>

theorem ElliSLICE_hessian_raises:
  "ElliSLICE_hessian (Scalar 2 0) 1 1 0 1 0 0 = Inl ZeroDivisionError"
proof -
  have "ElliSLICE_derivatives (Scalar 2 0) 1 1 0 1 0 0 = Inl ZeroDivisionError"
    by (simp add: in_slice_def rounds_to_zero_def alpha_ext_circular_axis cart2polar_2_0
        median_op_def)
  then show ?thesis
    by (simp add: ElliSLICE_hessian_def del: ElliSLICE_derivatives.simps)
qed

text \<open>
  C6 (amended). Whenever the deflection of the slice returns at \<^verbatim>\<open>(x, y)\<close>,
  \<^verbatim>\<open>(x + h, y)\<close> and \<^verbatim>\<open>(x, y + h)\<close> with the fixed step \<^verbatim>\<open>h = 1e-9\<close>, the hessian
  returns exactly the forward-difference quotients of that deflection:
  \<^verbatim>\<open>f_xx = (alpha_x(x+h, y) - alpha_x(x, y))/h\<close>,
  \<^verbatim>\<open>f_xy = (alpha_x(x, y+h) - alpha_x(x, y))/h\<close>,
  \<^verbatim>\<open>f_yx = (alpha_y(x+h, y) - alpha_y(x, y))/h\<close>,
  \<^verbatim>\<open>f_yy = (alpha_y(x, y+h) - alpha_y(x, y))/h\<close>. For array input the quotients are
  taken element by element, from the scalar deflection at the i-th pair, and the hessian
  returns whenever the three calls of the deflection return. The cross terms \<^verbatim>\<open>f_xy\<close>
  and \<^verbatim>\<open>f_yx\<close> are two separately computed quotients.
\<close>

theorem ElliSLICE_hessian_forward_difference:
  "(ElliSLICE_derivatives (Scalar x y) a b psi sigma_0 center_x center_y
       = Inr (Float ax, Float ay)
    \<and> ElliSLICE_derivatives (Scalar (x + 1 / 10 ^ 9) y) a b psi sigma_0 center_x center_y
       = Inr (Float ax_dx, Float ay_dx)
    \<and> ElliSLICE_derivatives (Scalar x (y + 1 / 10 ^ 9)) a b psi sigma_0 center_x center_y
       = Inr (Float ax_dy, Float ay_dy)
    \<longrightarrow> ElliSLICE_hessian (Scalar x y) a b psi sigma_0 center_x center_y
       = Inr (Float ((ax_dx - ax) / (1 / 10 ^ 9)), Float ((ax_dy - ax) / (1 / 10 ^ 9)),
              Float ((ay_dx - ay) / (1 / 10 ^ 9)), Float ((ay_dy - ay) / (1 / 10 ^ 9))))
   \<and> (ElliSLICE_hessian (Array ps) a b psi sigma_0 center_x center_y = Inr H
    \<longrightarrow> (\<exists>fxx fxy fyx fyy.
          H = (NDArray fxx, NDArray fxy, NDArray fyx, NDArray fyy)
        \<and> length fxx = length ps \<and> length fxy = length ps
        \<and> length fyx = length ps \<and> length fyy = length ps
        \<and> (\<forall>i<length ps. \<exists>ax ay ax_dx ay_dx ax_dy ay_dy.
              ElliSLICE_derivatives (Scalar (fst (ps ! i)) (snd (ps ! i)))
                a b psi sigma_0 center_x center_y = Inr (Float ax, Float ay)
            \<and> ElliSLICE_derivatives (Scalar (fst (ps ! i) + 1 / 10 ^ 9) (snd (ps ! i)))
                a b psi sigma_0 center_x center_y = Inr (Float ax_dx, Float ay_dx)
            \<and> ElliSLICE_derivatives (Scalar (fst (ps ! i)) (snd (ps ! i) + 1 / 10 ^ 9))
                a b psi sigma_0 center_x center_y = Inr (Float ax_dy, Float ay_dy)
            \<and> fxx ! i = (ax_dx - ax) / (1 / 10 ^ 9) \<and> fxy ! i = (ax_dy - ax) / (1 / 10 ^ 9)
            \<and> fyx ! i = (ay_dx - ay) / (1 / 10 ^ 9) \<and> fyy ! i = (ay_dy - ay) / (1 / 10 ^ 9))))
   \<and> (ElliSLICE_derivatives c a b psi sigma_0 center_x center_y = Inr R0
      \<and> ElliSLICE_derivatives (add_x c (1 / 10 ^ 9)) a b psi sigma_0 center_x center_y = Inr R1
      \<and> ElliSLICE_derivatives (add_y c (1 / 10 ^ 9)) a b psi sigma_0 center_x center_y = Inr R2
    \<longrightarrow> (\<exists>H'. ElliSLICE_hessian c a b psi sigma_0 center_x center_y = Inr H'))"
proof (intro conjI impI)
  assume "ElliSLICE_derivatives (Scalar x y) a b psi sigma_0 center_x center_y
       = Inr (Float ax, Float ay)
    \<and> ElliSLICE_derivatives (Scalar (x + 1 / 10 ^ 9) y) a b psi sigma_0 center_x center_y
       = Inr (Float ax_dx, Float ay_dx)
    \<and> ElliSLICE_derivatives (Scalar x (y + 1 / 10 ^ 9)) a b psi sigma_0 center_x center_y
       = Inr (Float ax_dy, Float ay_dy)"
  then show "ElliSLICE_hessian (Scalar x y) a b psi sigma_0 center_x center_y
       = Inr (Float ((ax_dx - ax) / (1 / 10 ^ 9)), Float ((ax_dy - ax) / (1 / 10 ^ 9)),
              Float ((ay_dx - ay) / (1 / 10 ^ 9)), Float ((ay_dy - ay) / (1 / 10 ^ 9)))"
    using ElliSLICE_hessian_Scalar by blast
next
  assume "ElliSLICE_hessian (Array ps) a b psi sigma_0 center_x center_y = Inr H"
  then show "\<exists>fxx fxy fyx fyy.
          H = (NDArray fxx, NDArray fxy, NDArray fyx, NDArray fyy)
        \<and> length fxx = length ps \<and> length fxy = length ps
        \<and> length fyx = length ps \<and> length fyy = length ps
        \<and> (\<forall>i<length ps. \<exists>ax ay ax_dx ay_dx ax_dy ay_dy.
              ElliSLICE_derivatives (Scalar (fst (ps ! i)) (snd (ps ! i)))
                a b psi sigma_0 center_x center_y = Inr (Float ax, Float ay)
            \<and> ElliSLICE_derivatives (Scalar (fst (ps ! i) + 1 / 10 ^ 9) (snd (ps ! i)))
                a b psi sigma_0 center_x center_y = Inr (Float ax_dx, Float ay_dx)
            \<and> ElliSLICE_derivatives (Scalar (fst (ps ! i)) (snd (ps ! i) + 1 / 10 ^ 9))
                a b psi sigma_0 center_x center_y = Inr (Float ax_dy, Float ay_dy)
            \<and> fxx ! i = (ax_dx - ax) / (1 / 10 ^ 9) \<and> fxy ! i = (ax_dy - ax) / (1 / 10 ^ 9)
            \<and> fyx ! i = (ay_dx - ay) / (1 / 10 ^ 9) \<and> fyy ! i = (ay_dy - ay) / (1 / 10 ^ 9))"
    by (rule ElliSLICE_hessian_Array)
next
  assume "ElliSLICE_derivatives c a b psi sigma_0 center_x center_y = Inr R0
      \<and> ElliSLICE_derivatives (add_x c (1 / 10 ^ 9)) a b psi sigma_0 center_x center_y = Inr R1
      \<and> ElliSLICE_derivatives (add_y c (1 / 10 ^ 9)) a b psi sigma_0 center_x center_y = Inr R2"
  then show "\<exists>H'. ElliSLICE_hessian c a b psi sigma_0 center_x center_y = Inr H'"
    using ElliSLICE_hessian_returns by blast
qed

text \<open>
  At the centre of the unit circle the three deflections are \<^verbatim>\<open>(0, 0)\<close>, \<^verbatim>\<open>(h, 0)\<close> and
  \<^verbatim>\<open>(0, h)\<close>, and the hessian is \<^verbatim>\<open>(1, 0, 0, 1)\<close>.
\<close>

theorem ElliSLICE_hessian_forward_difference_witness:
  "ElliSLICE_derivatives (Scalar 0 0) 1 1 0 1 0 0 = Inr (Float 0, Float 0)
   \<and> ElliSLICE_derivatives (Scalar (0 + 1 / 10 ^ 9) 0) 1 1 0 1 0 0
       = Inr (Float (1 / 10 ^ 9), Float 0)
   \<and> ElliSLICE_derivatives (Scalar 0 (0 + 1 / 10 ^ 9)) 1 1 0 1 0 0
       = Inr (Float 0, Float (1 / 10 ^ 9))
   \<and> ElliSLICE_hessian (Scalar 0 0) 1 1 0 1 0 0 = Inr (Float 1, Float 0, Float 0, Float 1)"
proof -
  have d0: "ElliSLICE_derivatives (Scalar 0 0) 1 1 0 1 0 0 = Inr (Float 0, Float 0)"
    by (simp add: in_slice_def rounds_to_zero_def alpha_in_def py_div_def cmath_exp_def
        Let_def power2_eq_square)
  have d1: "ElliSLICE_derivatives (Scalar (0 + 1 / 10 ^ 9) 0) 1 1 0 1 0 0
       = Inr (Float (1 / 10 ^ 9), Float 0)"
    by (simp add: in_slice_def rounds_to_zero_def alpha_in_def py_div_def cmath_exp_def
        Let_def power2_eq_square)
  have d2: "ElliSLICE_derivatives (Scalar 0 (0 + 1 / 10 ^ 9)) 1 1 0 1 0 0
       = Inr (Float 0, Float (1 / 10 ^ 9))"
    by (simp add: in_slice_def rounds_to_zero_def alpha_in_def py_div_def cmath_exp_def
        Let_def power2_eq_square)
  have "ElliSLICE_hessian (Scalar 0 0) 1 1 0 1 0 0
       = Inr (Float ((1 / 10 ^ 9 - 0) / (1 / 10 ^ 9)), Float ((0 - 0) / (1 / 10 ^ 9)),
              Float ((0 - 0) / (1 / 10 ^ 9)), Float ((1 / 10 ^ 9 - 0) / (1 / 10 ^ 9)))"
    by (rule ElliSLICE_hessian_forward_difference
        [THEN conjunct1, rule_format, OF conjI [OF d0 conjI [OF d1 d2]]])
  then have "ElliSLICE_hessian (Scalar 0 0) 1 1 0 1 0 0
       = Inr (Float 1, Float 0, Float 0, Float 1)"
    by simp
  with d0 d1 d2 show ?thesis
    by blast
qed

section \<open>The elliptical slice: the median over three evaluations\<close>









end
